theory Spec2Isabelle
  imports Complex_Main
begin

section \<open>Numeric arrays\<close>

text \<open>
  The notebook works on numpy arrays of Python floats. A one-dimensional array is a list,
  and a float is modelled by the real number it stands for: the literals \<open>0.2\<close>,
  \<open>0.8\<close>, \<open>0.01\<close>, \<open>0.02\<close>, \<open>0.9\<close> of the source are the rationals
  they denote, and \<open>*\<close>, \<open>/\<close>, \<open>-\<close> are exact. numpy does not raise on a zero
  denominator (it yields \<open>inf\<close> or \<open>nan\<close> and goes on); HOL's division yields \<open>0\<close>
  there, so every statement about a quotient below comes with the fact that its
  denominator is not zero.
\<close>

type_synonym array = "real list"

text \<open>
  Modelled from the spec: \<open>numpy.linspace\<close> is a function of the numerical library, not
  of the repository. The claims describe \<open>linspace(0.01, 1)\<close> as 50 evenly spaced points
  and \<open>linspace(0.2, 0.8, 4)\<close> as the values 0.2, 0.4, 0.6, 0.8: \<open>num\<close> points from
  \<open>start\<close> to \<open>stop\<close>, both included, with the constant step
  \<open>(stop - start) / (num - 1)\<close>.
\<close>

definition linspace :: "real \<Rightarrow> real \<Rightarrow> nat \<Rightarrow> array" where
  "linspace start stop num =
     map (\<lambda>i. start + real i * ((stop - start) / real (num - 1))) [0..<num]"

section \<open>The iso-F1 curves\<close>

text \<open>
  The last cell of the notebook draws four iso-F1 curves:
  \<^verbatim>\<open>
  f_scores = np.linspace(0.2, 0.8, num=4)
  for f_score in f_scores:
      x = np.linspace(0.01, 1)
      y = f_score * x / (2 * x - f_score)
      l, = plt.plot(x[y >= 0], y[y >= 0], color='gray', alpha=0.2)
      plt.annotate('f1={0:0.1f}'.format(f_score), xy=(0.9, y[45] + 0.02))
  \<close>
  \<open>np.linspace(0.01, 1)\<close> uses the default \<open>num=50\<close>.
\<close>

definition f_scores :: array where
  "f_scores = linspace (2/10) (8/10) 4"

definition iso_x :: array where
  "iso_x = linspace (1/100) 1 50"

text \<open>The denominator \<open>2 * x - f_score\<close> and the quotient, element by element.\<close>

definition iso_denominator :: "real \<Rightarrow> real \<Rightarrow> real" where
  "iso_denominator f_score x = 2 * x - f_score"

definition iso_y :: "real \<Rightarrow> array \<Rightarrow> array" where
  "iso_y f_score x = map (\<lambda>xi. f_score * xi / iso_denominator f_score xi) x"

text \<open>Boolean-mask indexing \<open>a[y >= 0]\<close>: the entries of \<open>a\<close> at the positions where
  \<open>y\<close> is not negative.\<close>

definition select_nonneg :: "array \<Rightarrow> array \<Rightarrow> array" where
  "select_nonneg y a = map snd (filter (\<lambda>(yi, ai). yi \<ge> 0) (zip y a))"




section \<open>The library the notebook calls\<close>







section \<open>What the notebook plots and prints\<close>






subsection \<open>Binary case\<close>



subsection \<open>Multi-label case: the curves\<close>








subsection \<open>Multi-label case: the micro-averaged figure\<close>


subsection \<open>Multi-label case: the figure with one curve per class\<close>

text \<open>
  \<^verbatim>\<open>
  colors = cycle(['navy', 'turquoise', 'darkorange', 'cornflowerblue', 'teal'])
  plt.figure(figsize=(7, 8))
  f_scores = np.linspace(0.2, 0.8, num=4)
  lines = []
  labels = []
  for f_score in f_scores:
      x = np.linspace(0.01, 1)
      y = f_score * x / (2 * x - f_score)
      l, = plt.plot(x[y >= 0], y[y >= 0], color='gray', alpha=0.2)
      plt.annotate('f1={0:0.1f}'.format(f_score), xy=(0.9, y[45] + 0.02))

  lines.append(l)
  labels.append('iso-f1 curves')
  l, = plt.plot(recall["micro"], precision["micro"], color='gold', lw=2)
  lines.append(l)
  labels.append('micro-average Precision-recall (area = {0:0.2f})'
                ''.format(average_precision["micro"]))

  for i, color in zip(range(n_classes), colors):
      l, = plt.plot(recall[i], precision[i], color=color, lw=2)
      lines.append(l)
      labels.append('Precision-recall for class {0} (area = {1:0.2f})'
                    ''.format(i, average_precision[i]))

  fig = plt.gcf()
  fig.subplots_adjust(bottom=0.25)
  plt.xlim([0.0, 1.0])
  plt.ylim([0.0, 1.05])
  plt.xlabel('Recall')
  plt.ylabel('Precision')
  plt.title('Extension of Precision-Recall curve to multi-class')
  plt.legend(lines, labels, loc=(0, -.38), prop=dict(size=14))
  plt.show()
  \<close>
\<close>









subsection \<open>The notebook, cell after cell\<close>




section \<open>Where the plotted and printed values come from\<close>











section \<open>The multi-label report, class by class\<close>












section \<open>A small run\<close>









section \<open>The iso-F1 grid: safe division and level sets\<close>

lemma upt4: "[0..<4] = [0, 1, 2, 3]"
  by (simp add: upt_conv_Cons)

lemma f_scores_values: "f_scores = [1/5, 2/5, 3/5, 4/5]"
  by (simp add: f_scores_def linspace_def upt4)

lemma set_linspace:
  "set (linspace a b n) = (\<lambda>i. a + real i * ((b - a) / real (n - 1))) ` {0..<n}"
  by (simp add: linspace_def)

lemma length_linspace [simp]: "length (linspace a b n) = n"
  by (simp add: linspace_def)

lemma in_iso_x: "x \<in> set iso_x \<longleftrightarrow> (\<exists>i<50. x = (49 + 99 * real i) / 4900)"
proof -
  have e: "\<And>i::nat. 1/100 + real i * ((1 - 1/100) / real (50 - 1)) = (49 + 99 * real i) / 4900"
    by (simp add: field_simps)
  show ?thesis
    unfolding iso_x_def set_linspace e by (auto simp only: image_iff atLeastLessThan_iff Bex_def)
qed

lemma in_f_scores: "f \<in> set f_scores \<longleftrightarrow> (\<exists>k<4. f = (1 + real k) / 5)"
proof -
  have e: "\<And>i::nat. 2/10 + real i * ((8/10 - 2/10) / real (4 - 1)) = (1 + real i) / 5"
    by (simp add: field_simps)
  show ?thesis
    unfolding f_scores_def set_linspace e by (auto simp only: image_iff atLeastLessThan_iff Bex_def)
qed

lemma grid_denominator:
  assumes "i < (50::nat)" and "k < (4::nat)"
  shows "2 * ((49 + 99 * real i) / 4900) - (1 + real k) / 5 \<noteq> 0"
proof
  assume "2 * ((49 + 99 * real i) / 4900) - (1 + real k) / 5 = 0"
  then have "real (49 + 99 * i) = real (490 * (1 + k))"
    by (simp add: field_simps)
  then have "49 + 99 * i = 490 * (1 + k)"
    by (simp only: of_nat_eq_iff)
  then have eq: "99 * i = 490 * k + 441"
    by simp
  show False
  proof (cases "i \<le> 5 * k + 4")
    case True
    then have "99 * i \<le> 495 * k + 396"
      by simp
    with eq assms(2) show False
      by simp
  next
    case False
    then have "495 * k + 495 \<le> 99 * i"
      by simp
    with eq show False
      by simp
  qed
qed

lemma iso_denominator_nonzero:
  assumes "f \<in> set f_scores" and "x \<in> set iso_x"
  shows "iso_denominator f x \<noteq> 0"
proof -
  from assms(1) obtain k where k: "k < 4" "f = (1 + real k) / 5"
    unfolding in_f_scores by blast
  from assms(2) obtain i where i: "i < 50" "x = (49 + 99 * real i) / 4900"
    unfolding in_iso_x by blast
  show ?thesis
    unfolding iso_denominator_def k(2) i(2) using grid_denominator [OF i(1) k(1)] .
qed

text \<open>
  Claim C9. The division in the iso-F1 curve computation is safe: for every \<open>f_score\<close>
  of \<open>linspace(0.2, 0.8, 4)\<close> and every \<open>x\<close> of the 50 points of
  \<open>linspace(0.01, 1)\<close>, the denominator \<open>2 * x - f_score\<close> is not zero.
\<close>

theorem iso_f1_division_safe:
  "\<forall>f_score \<in> set f_scores. \<forall>x \<in> set iso_x. iso_denominator f_score x \<noteq> 0"
  using iso_denominator_nonzero by blast

lemma iso_x_first: "1/100 \<in> set iso_x"
  unfolding in_iso_x by (rule exI [of _ 0]) simp


lemma f_scores_first: "1/5 \<in> set f_scores"
  by (simp add: f_scores_values)

text \<open>The statement at \<open>f_score = 0.2\<close> and the first grid point \<open>x = 0.01\<close>; the two
  grids have 4 and 50 points.\<close>

theorem iso_f1_division_safe_witness:
  "1/5 \<in> set f_scores \<and> 1/100 \<in> set iso_x \<and> iso_denominator (1/5) (1/100) \<noteq> 0
   \<and> length f_scores = 4 \<and> length iso_x = 50"
  using iso_f1_division_safe f_scores_first iso_x_first
  by (simp add: f_scores_def iso_x_def)








section \<open>The loops of the multi-label case\<close>




lemma length_iso_y [simp]: "length (iso_y f x) = length x"
  by (simp add: iso_y_def)

lemma length_iso_x [simp]: "length iso_x = 50"
  by (simp add: iso_x_def)














section \<open>One curve for every class\<close>














section \<open>Library output and the notebook's own formula\<close>












text \<open>
  The abscissae drawn for \<open>f_score = 0.2\<close> are not the array that \<open>linspace\<close>
  returned: the first grid point \<open>0.01\<close> has a negative ordinate and is masked out.
\<close>

lemma select_nonneg_filter:
  "select_nonneg (map g xs) xs = filter (\<lambda>x. g x \<ge> 0) xs"
  by (induction xs) (simp_all add: select_nonneg_def)

lemma iso_abscissae_modified: "select_nonneg (iso_y (1/5) iso_x) iso_x \<noteq> iso_x"
proof
  let ?kept = "\<lambda>x::real. 1/5 * x / iso_denominator (1/5) x \<ge> 0"
  assume "select_nonneg (iso_y (1/5) iso_x) iso_x = iso_x"
  then have "filter ?kept iso_x = iso_x"
    by (simp only: iso_y_def select_nonneg_filter)
  then have "1/100 \<in> set (filter ?kept iso_x)"
    using iso_x_first by simp
  then have "?kept (1/100)"
    by (simp only: set_filter mem_Collect_eq)
  then show False
    by (simp add: iso_denominator_def)
qed

end
